theory Spec2Isabelle
  imports Complex_Main
begin

section \<open>JavaScript numbers\<close>

text \<open>
  The valuation engine computes on JavaScript values of type \<open>number\<close>. A number is
  modelled as a real or one of the three non-finite values, and every operator is total, as
  in JavaScript: dividing by zero does not raise, it returns an infinity or \<open>NaN\<close>.

  The model is exact arithmetic: a finite result is the mathematical result, with no
  rounding, overflow or underflow. Zero carries no sign and divides as \<open>+0\<close>; the only
  divisor of the engine that can be zero is \<open>Math.pow(1 + wacc, t)\<close>, whose zero is the
  positive one (a sum with the addend \<open>1\<close> is never \<open>-0\<close>).
\<close>

datatype jsnum = Num real | PosInf | NegInf | NaN

fun finite_num :: "jsnum \<Rightarrow> bool" where
  "finite_num (Num r) = True"
| "finite_num PosInf = False"
| "finite_num NegInf = False"
| "finite_num NaN = False"

definition js_inf :: "bool \<Rightarrow> jsnum" where
  "js_inf positive = (if positive then PosInf else NegInf)"

fun js_neg :: "jsnum \<Rightarrow> jsnum" where
  "js_neg (Num a) = Num (- a)"
| "js_neg PosInf = NegInf"
| "js_neg NegInf = PosInf"
| "js_neg NaN = NaN"

fun js_add :: "jsnum \<Rightarrow> jsnum \<Rightarrow> jsnum" where
  "js_add NaN b = NaN"
| "js_add a NaN = NaN"
| "js_add (Num a) (Num b) = Num (a + b)"
| "js_add PosInf NegInf = NaN"
| "js_add NegInf PosInf = NaN"
| "js_add PosInf b = PosInf"
| "js_add a PosInf = PosInf"
| "js_add NegInf b = NegInf"
| "js_add a NegInf = NegInf"

definition js_sub :: "jsnum \<Rightarrow> jsnum \<Rightarrow> jsnum" where
  "js_sub a b = js_add a (js_neg b)"

fun js_mul :: "jsnum \<Rightarrow> jsnum \<Rightarrow> jsnum" where
  "js_mul NaN b = NaN"
| "js_mul a NaN = NaN"
| "js_mul (Num a) (Num b) = Num (a * b)"
| "js_mul PosInf (Num b) = (if b = 0 then NaN else js_inf (0 < b))"
| "js_mul NegInf (Num b) = (if b = 0 then NaN else js_inf (b < 0))"
| "js_mul (Num a) PosInf = (if a = 0 then NaN else js_inf (0 < a))"
| "js_mul (Num a) NegInf = (if a = 0 then NaN else js_inf (a < 0))"
| "js_mul PosInf PosInf = PosInf"
| "js_mul NegInf NegInf = PosInf"
| "js_mul PosInf NegInf = NegInf"
| "js_mul NegInf PosInf = NegInf"

fun js_div :: "jsnum \<Rightarrow> jsnum \<Rightarrow> jsnum" where
  "js_div NaN b = NaN"
| "js_div a NaN = NaN"
| "js_div (Num a) (Num b) =
     (if b = 0 then (if a = 0 then NaN else js_inf (0 < a)) else Num (a / b))"
| "js_div (Num a) PosInf = Num 0"
| "js_div (Num a) NegInf = Num 0"
| "js_div PosInf (Num b) = js_inf (0 \<le> b)"
| "js_div NegInf (Num b) = js_inf (b < 0)"
| "js_div a b = NaN"

text \<open>The comparisons \<open>>\<close> and \<open><=\<close>: false as soon as one side is \<open>NaN\<close>.\<close>

fun js_gt :: "jsnum \<Rightarrow> jsnum \<Rightarrow> bool" where
  "js_gt NaN b = False"
| "js_gt a NaN = False"
| "js_gt (Num a) (Num b) = (b < a)"
| "js_gt a PosInf = False"
| "js_gt NegInf b = False"
| "js_gt PosInf b = True"
| "js_gt a NegInf = True"

fun js_le :: "jsnum \<Rightarrow> jsnum \<Rightarrow> bool" where
  "js_le NaN b = False"
| "js_le a NaN = False"
| "js_le a b = (\<not> js_gt a b)"

definition js_ge :: "jsnum \<Rightarrow> jsnum \<Rightarrow> bool" where
  "js_ge a b = js_le b a"

text \<open>\<open>Math.max\<close>, \<open>Math.min\<close>: \<open>NaN\<close> as soon as one argument is.\<close>

fun Math_max :: "jsnum \<Rightarrow> jsnum \<Rightarrow> jsnum" where
  "Math_max NaN b = NaN"
| "Math_max a NaN = NaN"
| "Math_max a b = (if js_gt a b then a else b)"

fun Math_min :: "jsnum \<Rightarrow> jsnum \<Rightarrow> jsnum" where
  "Math_min NaN b = NaN"
| "Math_min a NaN = NaN"
| "Math_min a b = (if js_gt a b then b else a)"

fun Math_floor :: "jsnum \<Rightarrow> jsnum" where
  "Math_floor (Num a) = Num (of_int \<lfloor>a\<rfloor>)"
| "Math_floor a = a"

text \<open>
  \<open>Math.pow(base, exponent)\<close>, in the order of the language definition: a \<open>NaN\<close>
  exponent, a zero exponent, a \<open>NaN\<close> base, the infinite bases, the zero base, the
  infinite exponents, a negative base (a number only for an integral exponent), and the
  real power.
\<close>

definition Math_pow :: "jsnum \<Rightarrow> jsnum \<Rightarrow> jsnum" where
  "Math_pow base exponent =
     (case exponent of
        NaN \<Rightarrow> NaN
      | Num y \<Rightarrow>
          if y = 0 then Num 1
          else (case base of
                  NaN \<Rightarrow> NaN
                | PosInf \<Rightarrow> if 0 < y then PosInf else Num 0
                | NegInf \<Rightarrow>
                    if 0 < y then (if y \<in> \<int> \<and> odd \<lfloor>y\<rfloor> then NegInf else PosInf) else Num 0
                | Num x \<Rightarrow>
                    if x = 0 then (if 0 < y then Num 0 else PosInf)
                    else if 0 < x then Num (x powr y)
                    else if y \<in> \<int> then Num (x powi \<lfloor>y\<rfloor>)
                    else NaN)
      | PosInf \<Rightarrow>
          (case base of
             NaN \<Rightarrow> NaN
           | Num x \<Rightarrow> if 1 < \<bar>x\<bar> then PosInf else if \<bar>x\<bar> = 1 then NaN else Num 0
           | PosInf \<Rightarrow> PosInf
           | NegInf \<Rightarrow> PosInf)
      | NegInf \<Rightarrow>
          (case base of
             NaN \<Rightarrow> NaN
           | Num x \<Rightarrow> if 1 < \<bar>x\<bar> then Num 0 else if \<bar>x\<bar> = 1 then NaN else PosInf
           | PosInf \<Rightarrow> Num 0
           | NegInf \<Rightarrow> Num 0))"

text \<open>\<open>xs[k] ?? d\<close>: an index outside the array reads \<open>undefined\<close>, replaced by \<open>d\<close>.\<close>

definition nullish_nth :: "jsnum list \<Rightarrow> nat \<Rightarrow> jsnum \<Rightarrow> jsnum" where
  "nullish_nth xs k d = (if k < length xs then xs ! k else d)"

section \<open>Small helpers and baseline metrics\<close>

definition clamp :: "jsnum \<Rightarrow> jsnum \<Rightarrow> jsnum \<Rightarrow> jsnum" where
  "clamp x lo hi = Math_min hi (Math_max lo x)"

definition planEPSVND :: "jsnum \<Rightarrow> jsnum \<Rightarrow> jsnum" where
  "planEPSVND planNPAT_bn shares_n =
     (if js_gt shares_n (Num 0) then js_div (js_mul planNPAT_bn (Num 1000000000)) shares_n
      else Num 0)"

definition priceFromPE :: "jsnum \<Rightarrow> jsnum \<Rightarrow> jsnum" where
  "priceFromPE epsVND_n pe = js_mul epsVND_n pe"

definition netCashBn :: "jsnum \<Rightarrow> jsnum \<Rightarrow> jsnum \<Rightarrow> jsnum" where
  "netCashBn cash_bn htm_bn borrow_bn = js_sub (js_add cash_bn htm_bn) borrow_bn"

definition bvpsVND :: "jsnum \<Rightarrow> jsnum \<Rightarrow> jsnum" where
  "bvpsVND totalEquity_bn shares_n =
     (if js_gt shares_n (Num 0) then js_div (js_mul totalEquity_bn (Num 1000000000)) shares_n
      else Num 0)"

section \<open>The DCF (FCFF) engine\<close>

record DCFInputs =
  rev2025_bn :: jsnum
  cagr :: jsnum
  revSeries_bn :: "jsnum list option"
  ebitMargin :: jsnum
  tax :: jsnum
  roc :: jsnum
  wacc :: jsnum
  gT :: jsnum
  netCash_bn :: jsnum
  shares :: jsnum

text \<open>
  A row of the explicit period. The fields are those of the source's row object; \<open>y\<close> and
  \<open>t\<close> are the year and the discount period, integers of the fixed list of years.
\<close>

record DCFRow =
  row_y :: nat
  row_t :: nat
  row_rev :: jsnum
  row_g :: jsnum
  row_ebit :: jsnum
  row_nopat :: jsnum
  row_reinvRate :: jsnum
  row_fcff :: jsnum
  row_disc :: jsnum
  row_pv :: jsnum

record DCFResult =
  rows :: "DCFRow list"
  pvFCFF :: jsnum
  tv :: jsnum
  pvTV :: jsnum
  ev_bn :: jsnum
  eq_bn :: jsnum
  vps :: jsnum

definition years :: "nat list" where
  "years = [2026, 2027, 2028, 2029, 2030]"

definition rocSafe :: "DCFInputs \<Rightarrow> jsnum" where
  "rocSafe i = Math_max (roc i) (Num (1 / 1000000))"

definition cagrSeries :: "DCFInputs \<Rightarrow> jsnum list" where
  "cagrSeries i =
     map (\<lambda>idx. let t = idx + 1
                in js_mul (rev2025_bn i) (Math_pow (js_add (Num 1) (cagr i)) (Num (real t))))
       [0 ..< length years]"

definition revSeries :: "DCFInputs \<Rightarrow> jsnum list" where
  "revSeries i =
     (case revSeries_bn i of
        Some xs \<Rightarrow> if length xs = 5 then xs else cagrSeries i
      | None \<Rightarrow> cagrSeries i)"

definition dcfRow :: "DCFInputs \<Rightarrow> nat \<Rightarrow> nat \<Rightarrow> DCFRow" where
  "dcfRow i y idx =
     (let t = idx + 1;
          rev = nullish_nth (revSeries i) idx (Num 0);
          prevRev = (if idx = 0 then rev2025_bn i
                     else nullish_nth (revSeries i) (idx - 1) (rev2025_bn i));
          g = (if js_gt prevRev (Num 0) then js_sub (js_div rev prevRev) (Num 1) else cagr i);
          ebit = js_mul rev (ebitMargin i);
          nopat = js_mul ebit (js_sub (Num 1) (tax i));
          reinvRate = clamp (js_div g (rocSafe i)) (Num 0) (Num 0.95);
          fcff = js_mul nopat (js_sub (Num 1) reinvRate);
          disc = js_div (Num 1) (Math_pow (js_add (Num 1) (wacc i)) (Num (real t)));
          pv = js_mul fcff disc
      in \<lparr>row_y = y, row_t = t, row_rev = rev, row_g = g, row_ebit = ebit, row_nopat = nopat,
          row_reinvRate = reinvRate, row_fcff = fcff, row_disc = disc, row_pv = pv\<rparr>)"

definition dcfRows :: "DCFInputs \<Rightarrow> DCFRow list" where
  "dcfRows i = map (\<lambda>idx. dcfRow i (years ! idx) idx) [0 ..< length years]"

definition reinvTerm :: "DCFInputs \<Rightarrow> jsnum" where
  "reinvTerm i = clamp (js_div (gT i) (rocSafe i)) (Num 0) (Num 0.95)"

definition fcff2031 :: "DCFInputs \<Rightarrow> jsnum" where
  "fcff2031 i =
     (let rev2030 = row_rev (dcfRows i ! (length (dcfRows i) - 1));
          rev2031 = js_mul rev2030 (js_add (Num 1) (gT i));
          ebit2031 = js_mul rev2031 (ebitMargin i);
          nopat2031 = js_mul ebit2031 (js_sub (Num 1) (tax i))
      in js_mul nopat2031 (js_sub (Num 1) (reinvTerm i)))"

definition spread :: "DCFInputs \<Rightarrow> jsnum" where
  "spread i = Math_max (Num 0.001) (js_sub (wacc i) (gT i))"

definition dcfFCFF :: "DCFInputs \<Rightarrow> DCFResult" where
  "dcfFCFF i =
     (let rows_v = dcfRows i;
          tv_v = js_div (fcff2031 i) (spread i);
          pvTV_v = js_div tv_v (Math_pow (js_add (Num 1) (wacc i)) (Num 5));
          pvFCFF_v = foldl (\<lambda>s r. js_add s (row_pv r)) (Num 0) rows_v;
          ev = js_add pvFCFF_v pvTV_v;
          eq = js_add ev (netCash_bn i);
          vps_v = (if js_gt (shares i) (Num 0)
                   then js_div (js_mul eq (Num 1000000000)) (shares i) else Num 0)
      in \<lparr>rows = rows_v, pvFCFF = pvFCFF_v, tv = tv_v, pvTV = pvTV_v, ev_bn = ev,
          eq_bn = eq, vps = vps_v\<rparr>)"

section \<open>Store KPI driver, anchored to the plan\<close>

record StoreKPIInputs =
  startStores :: jsnum
  netNewStores :: jsnum
  ramp :: jsnum
  sssgDelta :: jsnum
  opLeverage :: jsnum

record ScenarioResult =
  endStores :: jsnum
  avgStoresEff :: jsnum
  revenue_bn :: jsnum
  npat_bn :: jsnum
  epsVND :: jsnum
  epsVsPlan :: jsnum
  revRatio :: jsnum

definition effectiveAvgStores :: "jsnum \<Rightarrow> jsnum \<Rightarrow> jsnum \<Rightarrow> jsnum" where
  "effectiveAvgStores startStores_n netNewStores_n ramp_n =
     (let s0 = Math_max (Num 0) startStores_n;
          nn = netNewStores_n;
          r = clamp ramp_n (Num 0) (Num 1)
      in js_add s0 (js_mul (js_div nn (Num 2)) r))"

definition storeDrivenScenario ::
  "jsnum \<Rightarrow> jsnum \<Rightarrow> jsnum \<Rightarrow> StoreKPIInputs \<Rightarrow> StoreKPIInputs \<Rightarrow> ScenarioResult" where
  "storeDrivenScenario planRevenue_bn planNPAT_bn shares_n base scenario =
     (let baseEff = Math_max (Num (1 / 1000000))
                      (effectiveAvgStores (startStores base) (netNewStores base) (ramp base));
          scenEff = Math_max (Num 0)
                      (effectiveAvgStores (startStores scenario) (netNewStores scenario)
                         (ramp scenario));
          rev = js_mul (js_mul planRevenue_bn (js_div scenEff baseEff))
                  (js_add (Num 1) (sssgDelta scenario));
          revRatio_v = (if js_gt planRevenue_bn (Num 0)
                        then Math_max (Num 0) (js_div rev planRevenue_bn) else Num 0);
          opLev = clamp (opLeverage scenario) (Num 0.5) (Num 2.0);
          npat = js_mul planNPAT_bn (Math_pow revRatio_v opLev);
          eps = (if js_gt shares_n (Num 0)
                 then js_div (js_mul npat (Num 1000000000)) shares_n else Num 0);
          epsVsPlan_v = (if js_gt planNPAT_bn (Num 0)
                         then js_sub (js_div npat planNPAT_bn) (Num 1) else Num 0);
          endStores_v = Math_max (Num 0) (js_add (startStores scenario) (netNewStores scenario))
      in \<lparr>endStores = endStores_v, avgStoresEff = scenEff, revenue_bn = rev, npat_bn = npat,
          epsVND = eps, epsVsPlan = epsVsPlan_v, revRatio = revRatio_v\<rparr>)"

section \<open>Store-driven revenue path for the DCF\<close>

text \<open>
  The parameter object of \<open>buildStoreDCFSeries\<close>. Its fields carry the prefix \<open>p_\<close>:
  the function rebinds most of their names to the clamped and floored values, which are the
  definitions \<open>sd_retailShare\<close> to \<open>sd_otherCagr\<close> below.
\<close>

record StoreDCFParams =
  p_rev2025_bn :: jsnum
  p_retailShare :: jsnum
  p_otherCagr :: jsnum
  p_storeStart :: jsnum
  p_netNewPerYear :: jsnum
  p_ramp :: jsnum
  p_sssgAbs :: jsnum

record StoreDCFRow =
  sr_year :: nat
  sr_storesStart :: jsnum
  sr_storesEnd :: jsnum
  sr_avgStoresEff :: jsnum
  sr_sssgAbs :: jsnum
  sr_retailRev_bn :: jsnum
  sr_otherRev_bn :: jsnum
  sr_revenue_bn :: jsnum
  sr_yoy :: jsnum

record StoreDCFSeries =
  sd_rows :: "StoreDCFRow list"
  impliedCAGR :: jsnum

definition sd_retailShare :: "StoreDCFParams \<Rightarrow> jsnum" where
  "sd_retailShare p = clamp (p_retailShare p) (Num 0) (Num 1)"

definition sd_otherShare :: "StoreDCFParams \<Rightarrow> jsnum" where
  "sd_otherShare p = js_sub (Num 1) (sd_retailShare p)"

definition sd_storeStart :: "StoreDCFParams \<Rightarrow> jsnum" where
  "sd_storeStart p = Math_max (Num 0) (Math_floor (p_storeStart p))"

definition sd_nn :: "StoreDCFParams \<Rightarrow> jsnum" where
  "sd_nn p = Math_floor (p_netNewPerYear p)"

definition sd_ramp :: "StoreDCFParams \<Rightarrow> jsnum" where
  "sd_ramp p = clamp (p_ramp p) (Num 0) (Num 1)"

definition sd_sssg :: "StoreDCFParams \<Rightarrow> jsnum" where
  "sd_sssg p = clamp (p_sssgAbs p) (Num (- 0.05)) (Num 0.20)"

definition sd_otherCagr :: "StoreDCFParams \<Rightarrow> jsnum" where
  "sd_otherCagr p = clamp (p_otherCagr p) (Num (- 0.05)) (Num 0.20)"

definition baseEff2025 :: "StoreDCFParams \<Rightarrow> jsnum" where
  "baseEff2025 p =
     Math_max (Num (1 / 1000000)) (effectiveAvgStores (sd_storeStart p) (sd_nn p) (sd_ramp p))"

definition retailRev2025 :: "StoreDCFParams \<Rightarrow> jsnum" where
  "retailRev2025 p = js_mul (p_rev2025_bn p) (sd_retailShare p)"

definition otherRev2025 :: "StoreDCFParams \<Rightarrow> jsnum" where
  "otherRev2025 p = js_mul (p_rev2025_bn p) (sd_otherShare p)"

definition matureRetailRevPerEffStore :: "StoreDCFParams \<Rightarrow> jsnum" where
  "matureRetailRevPerEffStore p = js_div (retailRev2025 p) (baseEff2025 p)"

text \<open>
  The body of the \<open>forEach\<close>: \<open>storeRow\<close> is the row it builds from \<open>prevTotal\<close> and the
  index, \<open>storeYear\<close> pushes the row and stores its total in \<open>prevTotal\<close>. The state is
  the array of rows pushed so far and \<open>prevTotal\<close>.
\<close>

definition storeRow :: "StoreDCFParams \<Rightarrow> jsnum \<Rightarrow> nat \<Rightarrow> StoreDCFRow" where
  "storeRow p prevTotal idx =
     (let year = years ! idx;
          t = Num (real (idx + 1));
          storesStart = js_add (sd_storeStart p) (js_mul (sd_nn p) (js_sub t (Num 1)));
          storesEnd = js_add storesStart (sd_nn p);
          avgEff = js_add storesStart (js_mul (js_div (sd_nn p) (Num 2)) (sd_ramp p));
          retailRev = js_mul (js_mul (matureRetailRevPerEffStore p) avgEff)
                        (Math_pow (js_add (Num 1) (sd_sssg p)) t);
          otherRev = js_mul (otherRev2025 p) (Math_pow (js_add (Num 1) (sd_otherCagr p)) t);
          total = js_add retailRev otherRev;
          yoy = (if js_gt prevTotal (Num 0) then js_sub (js_div total prevTotal) (Num 1)
                 else Num 0)
      in \<lparr>sr_year = year, sr_storesStart = storesStart, sr_storesEnd = storesEnd,
          sr_avgStoresEff = avgEff, sr_sssgAbs = sd_sssg p, sr_retailRev_bn = retailRev,
          sr_otherRev_bn = otherRev, sr_revenue_bn = total, sr_yoy = yoy\<rparr>)"

definition storeYear ::
  "StoreDCFParams \<Rightarrow> StoreDCFRow list \<times> jsnum \<Rightarrow> nat \<Rightarrow> StoreDCFRow list \<times> jsnum" where
  "storeYear p st idx =
     (let row = storeRow p (snd st) idx
      in (fst st @ [row], sr_revenue_bn row))"

definition storeRows :: "StoreDCFParams \<Rightarrow> StoreDCFRow list" where
  "storeRows p = fst (foldl (storeYear p) ([], p_rev2025_bn p) [0 ..< length years])"

definition buildStoreDCFSeries :: "StoreDCFParams \<Rightarrow> StoreDCFSeries" where
  "buildStoreDCFSeries p =
     (let rows_v = storeRows p;
          implied = (if js_gt (p_rev2025_bn p) (Num 0)
                     then js_sub
                            (Math_pow
                               (js_div (sr_revenue_bn (rows_v ! (length rows_v - 1)))
                                  (p_rev2025_bn p))
                               (js_div (Num 1) (Num 5)))
                            (Num 1)
                     else Num 0)
      in \<lparr>sd_rows = rows_v, impliedCAGR = implied\<rparr>)"

section \<open>Blended valuation\<close>





section \<open>Finite inputs, finite results and the default inputs\<close>

text \<open>
  An input of the engine is finite when every number in it is; a result is finite when every
  number of every row and every aggregate is.
\<close>

definition finite_inputs :: "DCFInputs \<Rightarrow> bool" where
  "finite_inputs i =
     (finite_num (rev2025_bn i) \<and> finite_num (cagr i) \<and> finite_num (ebitMargin i) \<and>
      finite_num (tax i) \<and> finite_num (roc i) \<and> finite_num (wacc i) \<and> finite_num (gT i) \<and>
      finite_num (netCash_bn i) \<and> finite_num (shares i) \<and>
      (case revSeries_bn i of None \<Rightarrow> True | Some xs \<Rightarrow> list_all finite_num xs))"

definition finite_row :: "DCFRow \<Rightarrow> bool" where
  "finite_row r =
     (finite_num (row_rev r) \<and> finite_num (row_g r) \<and> finite_num (row_ebit r) \<and>
      finite_num (row_nopat r) \<and> finite_num (row_reinvRate r) \<and> finite_num (row_fcff r) \<and>
      finite_num (row_disc r) \<and> finite_num (row_pv r))"


text \<open>The closed interval \<open>[0, 0.95]\<close>, with the comparisons of the language.\<close>

definition in_rate_range :: "jsnum \<Rightarrow> bool" where
  "in_rate_range x = (js_ge x (Num 0) \<and> js_le x (Num 0.95))"

text \<open>The inputs that \<open>resetDefaults\<close> installs in the dashboard.\<close>

definition dcfDefaults :: DCFInputs where
  "dcfDefaults =
     \<lparr>rev2025_bn = Num 31606.954, cagr = Num 0.08, revSeries_bn = None, ebitMargin = Num 0.07,
      tax = Num 0.2, roc = Num 0.18, wacc = Num 0.09, gT = Num 0.03,
      netCash_bn = Num 1801.342, shares = Num 341149107\<rparr>"

text \<open>The base store plan of the dashboard after \<open>resetDefaults\<close>.\<close>

definition kpiDefaults :: StoreKPIInputs where
  "kpiDefaults =
     \<lparr>startStores = Num 429, netNewStores = Num 20, ramp = Num 0.7, sssgDelta = Num 0,
      opLeverage = Num 1\<rparr>"

definition finite_kpi :: "StoreKPIInputs \<Rightarrow> bool" where
  "finite_kpi k =
     (finite_num (startStores k) \<and> finite_num (netNewStores k) \<and> finite_num (ramp k) \<and>
      finite_num (sssgDelta k) \<and> finite_num (opLeverage k))"

text \<open>The store-driven path parameters of the dashboard after \<open>resetDefaults\<close>.\<close>

definition storeDefaults :: StoreDCFParams where
  "storeDefaults =
     \<lparr>p_rev2025_bn = Num 31606.954, p_retailShare = Num 0.85, p_otherCagr = Num 0.03,
      p_storeStart = Num 429, p_netNewPerYear = Num 20, p_ramp = Num 0.7,
      p_sssgAbs = Num 0.04\<rparr>"

section \<open>Facts on the number operations\<close>

lemma finite_num_iff: "finite_num x \<longleftrightarrow> (\<exists>r. x = Num r)"
  by (cases x) simp_all

lemma finite_js_add: "finite_num a \<Longrightarrow> finite_num b \<Longrightarrow> finite_num (js_add a b)"
  by (auto simp add: finite_num_iff)

lemma finite_js_sub: "finite_num a \<Longrightarrow> finite_num b \<Longrightarrow> finite_num (js_sub a b)"
  by (auto simp add: finite_num_iff js_sub_def)

lemma finite_js_mul: "finite_num a \<Longrightarrow> finite_num b \<Longrightarrow> finite_num (js_mul a b)"
  by (auto simp add: finite_num_iff)

lemma finite_js_div:
  "finite_num a \<Longrightarrow> finite_num b \<Longrightarrow> b \<noteq> Num 0 \<Longrightarrow> finite_num (js_div a b)"
  by (auto simp add: finite_num_iff)

lemma finite_Math_max: "finite_num a \<Longrightarrow> finite_num b \<Longrightarrow> finite_num (Math_max a b)"
  by (auto simp add: finite_num_iff)

lemma finite_Math_min: "finite_num a \<Longrightarrow> finite_num b \<Longrightarrow> finite_num (Math_min a b)"
  by (auto simp add: finite_num_iff)

lemma finite_clamp:
  "finite_num x \<Longrightarrow> finite_num lo \<Longrightarrow> finite_num hi \<Longrightarrow> finite_num (clamp x lo hi)"
  by (simp add: clamp_def finite_Math_max finite_Math_min)

lemma Math_max_Num: "Math_max (Num a) (Num b) = Num (max a b)"
  by (simp add: max_def)

lemma Math_min_Num: "Math_min (Num a) (Num b) = Num (min a b)"
  by (simp add: min_def)

lemma clamp_Num: "clamp (Num x) (Num lo) (Num hi) = Num (min hi (max lo x))"
  by (simp only: clamp_def Math_max_Num Math_min_Num)

lemma clamp_in_range:
  assumes "lo \<le> hi" "x \<noteq> NaN"
  shows "js_ge (clamp x (Num lo) (Num hi)) (Num lo) \<and> js_le (clamp x (Num lo) (Num hi)) (Num hi)"
  using assms by (cases x) (auto simp add: clamp_def js_ge_def)

lemma js_le_not_gt: "js_le a b \<Longrightarrow> \<not> js_gt a b"
  by (cases a; cases b) simp_all

lemma js_gt_zero_nonzero: "js_gt b (Num 0) \<Longrightarrow> b \<noteq> Num 0"
  by auto

lemma Math_max_eps_right: "Math_max x (Num c) \<noteq> Num 0" if "0 < c"
  using that by (cases x) auto

lemma Math_max_eps_left: "Math_max (Num c) x \<noteq> Num 0" if "0 < c"
  using that by (cases x) auto

text \<open>A power with a natural exponent is the repeated product, whatever the sign of the base.\<close>

lemma Math_pow_nat: "Math_pow (Num x) (Num (real n)) = Num (x ^ n)"
proof (cases "n = 0")
  case True
  then show ?thesis by (simp add: Math_pow_def)
next
  case False
  then have n: "0 < real n" "real n \<noteq> 0" by simp_all
  have fl: "\<lfloor>real n\<rfloor> = int n" by simp
  have z: "real n \<in> \<int>" by simp
  consider "x = 0" | "0 < x" | "x < 0" by linarith
  then show ?thesis
  proof cases
    case 1
    then show ?thesis using False n by (simp add: Math_pow_def)
  next
    case 2
    then show ?thesis using n by (simp add: Math_pow_def powr_realpow)
  next
    case 3
    then have "Math_pow (Num x) (Num (real n)) = Num (x powi \<lfloor>real n\<rfloor>)"
      using n z by (simp add: Math_pow_def)
    then show ?thesis by (simp only: fl power_int_of_nat)
  qed
qed

lemma Math_pow_5: "Math_pow (Num x) (Num 5) = Num (x ^ 5)"
  using Math_pow_nat [of x 5] by simp

section \<open>The DCF engine: structure of the result\<close>

lemma rows_dcfFCFF: "rows (dcfFCFF i) = dcfRows i"
  by (simp add: dcfFCFF_def Let_def)


lemma length_cagrSeries: "length (cagrSeries i) = 5"
  by (simp add: cagrSeries_def years_def)

lemma length_revSeries: "length (revSeries i) = 5"
  by (simp add: revSeries_def length_cagrSeries split: option.split)

lemma cagrSeries_eq:
  "cagrSeries i =
     map (\<lambda>t. js_mul (rev2025_bn i) (Math_pow (js_add (Num 1) (cagr i)) (Num (real t))))
       [1, 2, 3, 4, 5]"
  by (simp add: cagrSeries_def years_def upt_rec)

lemma row_disc_dcfRow:
  "row_disc (dcfRow i y idx) =
     js_div (Num 1) (Math_pow (js_add (Num 1) (wacc i)) (Num (real (idx + 1))))"
  by (simp add: dcfRow_def Let_def del: of_nat_Suc of_nat_add)

lemma row_reinvRate_dcfRow:
  "row_reinvRate (dcfRow i y idx) =
     clamp (js_div (row_g (dcfRow i y idx)) (rocSafe i)) (Num 0) (Num 0.95)"
  by (simp add: dcfRow_def Let_def)

lemma length_years: "length years = 5"
  by (simp add: years_def)




text \<open>The engine reads the explicit path only through \<open>revSeries\<close>.\<close>

lemma dcfFCFF_cong:
  assumes "revSeries i = revSeries j" "rev2025_bn i = rev2025_bn j" "cagr i = cagr j"
    "ebitMargin i = ebitMargin j" "tax i = tax j" "roc i = roc j" "wacc i = wacc j"
    "gT i = gT j" "netCash_bn i = netCash_bn j" "shares i = shares j"
  shows "dcfFCFF i = dcfFCFF j"
proof -
  have w: "dcfRow i = dcfRow j"
    unfolding dcfRow_def rocSafe_def assms by (rule refl)
  have r: "dcfRows i = dcfRows j"
    unfolding dcfRows_def w by (rule refl)
  have f: "fcff2031 i = fcff2031 j"
    unfolding fcff2031_def reinvTerm_def rocSafe_def r assms by (rule refl)
  show ?thesis
    unfolding dcfFCFF_def spread_def r f assms by (rule refl)
qed

section \<open>The DCF engine: finiteness\<close>

text \<open>
  The lemmas of this section are facts of exact arithmetic; they evaluate the engine on
  inputs far from the range limits of a double, such as the default inputs.
\<close>

lemma finite_cagrSeries:
  assumes "finite_num (rev2025_bn i)" "finite_num (cagr i)"
  shows "list_all finite_num (cagrSeries i)"
proof -
  obtain r c where rc: "rev2025_bn i = Num r" "cagr i = Num c"
    using assms by (auto simp add: finite_num_iff)
  show ?thesis
    by (simp add: cagrSeries_def list_all_iff rc Math_pow_nat Let_def del: of_nat_Suc of_nat_add)
qed

lemma finite_revSeries:
  "finite_inputs i \<Longrightarrow> list_all finite_num (revSeries i)"
  by (auto simp add: finite_inputs_def revSeries_def finite_cagrSeries split: option.split)

lemma finite_nullish_nth:
  "list_all finite_num xs \<Longrightarrow> finite_num d \<Longrightarrow> finite_num (nullish_nth xs k d)"
  by (simp add: nullish_nth_def list_all_length)

lemma finite_rocSafe: "finite_num (roc i) \<Longrightarrow> finite_num (rocSafe i)"
  by (simp add: rocSafe_def finite_Math_max)

lemma rocSafe_nonzero: "rocSafe i \<noteq> Num 0"
  by (simp add: rocSafe_def Math_max_eps_right)

lemma rocSafe_positive:
  assumes "js_gt (roc i) (Num 0)"
  shows "(\<exists>r. rocSafe i = Num r \<and> 0 < r) \<or> rocSafe i = PosInf"
proof (cases "roc i")
  case (Num x)
  have "rocSafe i = Num (max x (1 / 1000000))"
    unfolding rocSafe_def Num by (rule Math_max_Num)
  moreover have "0 < max x (1 / 1000000)" by simp
  ultimately show ?thesis by blast
qed (use assms in \<open>simp_all add: rocSafe_def\<close>)

lemma spread_nonzero: "spread i \<noteq> Num 0"
  by (simp add: spread_def Math_max_eps_left)


lemma discount_divisor:
  assumes "wacc i = Num w" "w \<noteq> - 1"
  shows "finite_num (Math_pow (js_add (Num 1) (wacc i)) (Num (real n)))"
    and "Math_pow (js_add (Num 1) (wacc i)) (Num (real n)) \<noteq> Num 0"
  using assms by (simp_all add: Math_pow_nat)

lemma finite_dcfRow:
  assumes fi: "finite_inputs i" and w: "wacc i \<noteq> Num (- 1)"
  shows "finite_row (dcfRow i y idx)"
proof -
  obtain wr where wr: "wacc i = Num wr" "wr \<noteq> - 1"
    using fi w by (auto simp add: finite_inputs_def finite_num_iff)
  note dd = discount_divisor [OF wr]
  have fin: "finite_num (rev2025_bn i)" "finite_num (cagr i)" "finite_num (ebitMargin i)"
    "finite_num (tax i)" "finite_num (roc i)"
    using fi by (simp_all add: finite_inputs_def)
  define rev where "rev = nullish_nth (revSeries i) idx (Num 0)"
  define prevRev where "prevRev = (if idx = 0 then rev2025_bn i
                     else nullish_nth (revSeries i) (idx - 1) (rev2025_bn i))"
  define g where
    "g = (if js_gt prevRev (Num 0) then js_sub (js_div rev prevRev) (Num 1) else cagr i)"
  define reinvRate where "reinvRate = clamp (js_div g (rocSafe i)) (Num 0) (Num 0.95)"
  define nopat where "nopat = js_mul (js_mul rev (ebitMargin i)) (js_sub (Num 1) (tax i))"
  define fcff where "fcff = js_mul nopat (js_sub (Num 1) reinvRate)"
  define disc where
    "disc = js_div (Num 1) (Math_pow (js_add (Num 1) (wacc i)) (Num (real (idx + 1))))"
  have row: "dcfRow i y idx = \<lparr>row_y = y, row_t = idx + 1, row_rev = rev, row_g = g,
      row_ebit = js_mul rev (ebitMargin i), row_nopat = nopat, row_reinvRate = reinvRate,
      row_fcff = fcff, row_disc = disc, row_pv = js_mul fcff disc\<rparr>"
    unfolding dcfRow_def Let_def rev_def prevRev_def g_def reinvRate_def nopat_def fcff_def
      disc_def
    by (rule refl)
  have f_rev: "finite_num rev"
    unfolding rev_def by (rule finite_nullish_nth [OF finite_revSeries [OF fi]]) simp
  have f_prev: "finite_num prevRev"
    unfolding prevRev_def using fin finite_nullish_nth [OF finite_revSeries [OF fi]] by simp
  have f_g: "finite_num g"
    unfolding g_def using f_rev f_prev fin
    by (simp add: finite_js_sub finite_js_div js_gt_zero_nonzero)
  have f_rr: "finite_num reinvRate"
    unfolding reinvRate_def
    by (intro finite_clamp finite_js_div f_g finite_rocSafe fin rocSafe_nonzero) simp_all
  have f_ebit: "finite_num (js_mul rev (ebitMargin i))"
    by (intro finite_js_mul f_rev fin)
  have f_nopat: "finite_num nopat"
    unfolding nopat_def by (intro finite_js_mul finite_js_sub f_ebit fin) simp
  have f_fcff: "finite_num fcff"
    unfolding fcff_def by (intro finite_js_mul finite_js_sub f_nopat f_rr) simp
  have f_disc: "finite_num disc"
    unfolding disc_def by (intro finite_js_div dd) simp
  have f_pv: "finite_num (js_mul fcff disc)"
    by (intro finite_js_mul f_fcff f_disc)
  show ?thesis
    unfolding row finite_row_def
    using f_rev f_g f_ebit f_nopat f_rr f_fcff f_disc f_pv by simp
qed

lemma finite_dcfRows:
  "finite_inputs i \<Longrightarrow> wacc i \<noteq> Num (- 1) \<Longrightarrow> list_all finite_row (dcfRows i)"
  by (simp add: dcfRows_def list_all_iff finite_dcfRow)


lemma finite_defaults: "finite_inputs dcfDefaults" "wacc dcfDefaults \<noteq> Num (- 1)"
  by (simp_all add: finite_inputs_def dcfDefaults_def)

section \<open>The DCF engine: divisions\<close>




section \<open>The DCF engine: terminal-value spread\<close>

text \<open>
  Claim C5. The terminal value is the terminal cash flow divided by
  \<open>Math.max(0.001, wacc - gT)\<close>, for every input. That divisor is never zero; for finite
  rates it is the number \<open>max 0.001 (wacc - gT)\<close>, and when \<open>wacc\<close> equals \<open>gT\<close> it is
  exactly \<open>0.001\<close>.
\<close>

theorem tv_spread_guard:
  "tv (dcfFCFF i) = js_div (fcff2031 i) (Math_max (Num 0.001) (js_sub (wacc i) (gT i)))
     \<and> Math_max (Num 0.001) (js_sub (wacc i) (gT i)) \<noteq> Num 0
     \<and> (wacc i = Num w \<and> gT i = Num gr \<longrightarrow>
          Math_max (Num 0.001) (js_sub (wacc i) (gT i)) = Num (max 0.001 (w - gr)))
     \<and> (wacc i = Num w \<and> gT i = Num w \<longrightarrow>
          tv (dcfFCFF i) = js_div (fcff2031 i) (Num 0.001))"
proof -
  have t: "tv (dcfFCFF i) = js_div (fcff2031 i) (Math_max (Num 0.001) (js_sub (wacc i) (gT i)))"
    by (simp add: dcfFCFF_def Let_def spread_def)
  have n: "Math_max (Num 0.001) (js_sub (wacc i) (gT i)) \<noteq> Num 0"
    by (rule Math_max_eps_left) simp
  show ?thesis
    using n by (auto simp add: t js_sub_def)
qed

text \<open>The default inputs with the discount rate lowered to the terminal growth of 3%.\<close>

theorem tv_spread_guard_witness:
  "wacc (dcfDefaults\<lparr>wacc := Num 0.03\<rparr>) = Num 0.03
     \<and> gT (dcfDefaults\<lparr>wacc := Num 0.03\<rparr>) = Num 0.03
     \<and> Math_max (Num 0.001)
         (js_sub (wacc (dcfDefaults\<lparr>wacc := Num 0.03\<rparr>)) (gT (dcfDefaults\<lparr>wacc := Num 0.03\<rparr>)))
       = Num 0.001
     \<and> tv (dcfFCFF (dcfDefaults\<lparr>wacc := Num 0.03\<rparr>))
       = js_div (fcff2031 (dcfDefaults\<lparr>wacc := Num 0.03\<rparr>)) (Num 0.001)"
  using tv_spread_guard [of "dcfDefaults\<lparr>wacc := Num 0.03\<rparr>" "0.03" "0.03"]
  by (simp add: dcfDefaults_def)

section \<open>The DCF engine: reinvestment rate\<close>

lemma rate_in_range:
  assumes "js_gt (roc i) (Num 0)" "finite_num g"
  shows "in_rate_range (clamp (js_div g (rocSafe i)) (Num 0) (Num 0.95))"
proof -
  obtain x where x: "g = Num x" using assms(2) by (auto simp add: finite_num_iff)
  have "js_div g (rocSafe i) \<noteq> NaN"
    using rocSafe_positive [OF assms(1)] by (auto simp add: x)
  then show ?thesis
    unfolding in_rate_range_def by (intro clamp_in_range) simp_all
qed

text \<open>
  Claim C6. For every input of \<open>dcfFCFF\<close> with \<open>roc > 0\<close>, finite growth in every row and a
  finite terminal growth, the reinvestment rate of every explicit year and the terminal
  reinvestment rate lie in \<open>[0, 0.95]\<close>.
\<close>

theorem reinvestment_rate_range:
  assumes "js_gt (roc i) (Num 0)"
    and "list_all (\<lambda>r. finite_num (row_g r)) (rows (dcfFCFF i))"
    and "finite_num (gT i)"
  shows "list_all (\<lambda>r. in_rate_range (row_reinvRate r)) (rows (dcfFCFF i))
           \<and> in_rate_range (reinvTerm i)"
proof
  have "in_rate_range (row_reinvRate (dcfRow i y idx))"
    if "finite_num (row_g (dcfRow i y idx))" for y idx
    unfolding row_reinvRate_dcfRow by (rule rate_in_range [OF assms(1) that])
  then show "list_all (\<lambda>r. in_rate_range (row_reinvRate r)) (rows (dcfFCFF i))"
    using assms(2) unfolding rows_dcfFCFF dcfRows_def list_all_iff by simp
  show "in_rate_range (reinvTerm i)"
    unfolding reinvTerm_def by (rule rate_in_range [OF assms(1) assms(3)])
qed

theorem reinvestment_rate_range_witness:
  "js_gt (roc dcfDefaults) (Num 0)
     \<and> list_all (\<lambda>r. finite_num (row_g r)) (rows (dcfFCFF dcfDefaults))
     \<and> finite_num (gT dcfDefaults)
     \<and> list_all (\<lambda>r. in_rate_range (row_reinvRate r)) (rows (dcfFCFF dcfDefaults))
     \<and> in_rate_range (reinvTerm dcfDefaults)"
proof -
  have r: "js_gt (roc dcfDefaults) (Num 0)" and t: "finite_num (gT dcfDefaults)"
    by (simp_all add: dcfDefaults_def)
  have "list_all finite_row (dcfRows dcfDefaults)"
    by (rule finite_dcfRows [OF finite_defaults])
  then have g: "list_all (\<lambda>r. finite_num (row_g r)) (rows (dcfFCFF dcfDefaults))"
    by (simp add: rows_dcfFCFF list_all_iff finite_row_def)
  show ?thesis
    using reinvestment_rate_range [OF r g t] r g t by simp
qed

section \<open>The DCF engine: the two revenue-path modes\<close>

text \<open>
  Claim C8. Running \<open>dcfFCFF\<close> with the explicit five-entry path
  \<open>rev2025_bn * Math.pow(1 + cagr, t)\<close>, \<open>t = 1..5\<close>, gives the same result, rows and
  aggregates, as running it with no explicit path and the same fallback growth.
\<close>

theorem explicit_cagr_path_roundtrip:
  "dcfFCFF (i\<lparr>revSeries_bn :=
       Some (map (\<lambda>t. js_mul (rev2025_bn i) (Math_pow (js_add (Num 1) (cagr i)) (Num (real t))))
              [1, 2, 3, 4, 5])\<rparr>)
   = dcfFCFF (i\<lparr>revSeries_bn := None\<rparr>)"
  by (rule dcfFCFF_cong) (simp_all add: revSeries_def cagrSeries_eq)

section \<open>Degenerate share counts\<close>

text \<open>
  Claim C7. For every share count \<open>shares <= 0\<close>, the plan EPS, the book value per share,
  the scenario EPS of \<open>storeDrivenScenario\<close> and the value per share of \<open>dcfFCFF\<close> are
  exactly \<open>0\<close>, whatever the other inputs are.
\<close>

theorem degenerate_shares_zero:
  assumes "js_le sh (Num 0)"
  shows "planEPSVND planNPAT_bn sh = Num 0
       \<and> bvpsVND totalEquity_bn sh = Num 0
       \<and> epsVND (storeDrivenScenario planRevenue_bn planNPAT_bn sh base scenario) = Num 0
       \<and> vps (dcfFCFF (i\<lparr>shares := sh\<rparr>)) = Num 0"
proof -
  have n: "\<not> js_gt sh (Num 0)" by (rule js_le_not_gt [OF assms])
  have "planEPSVND planNPAT_bn sh = Num 0" "bvpsVND totalEquity_bn sh = Num 0"
    using n by (simp_all add: planEPSVND_def bvpsVND_def)
  moreover
  have "epsVND (storeDrivenScenario planRevenue_bn planNPAT_bn sh base scenario) = Num 0"
    using n by (simp add: storeDrivenScenario_def Let_def)
  moreover have "vps (dcfFCFF (i\<lparr>shares := sh\<rparr>)) = Num 0"
    using n by (simp add: dcfFCFF_def Let_def)
  ultimately show ?thesis by simp
qed

text \<open>No shares at all, with the plan figures of the dashboard.\<close>

theorem degenerate_shares_zero_witness:
  "js_le (Num 0) (Num 0)
     \<and> planEPSVND (Num 1959.65) (Num 0) = Num 0
     \<and> bvpsVND (Num 11256.955) (Num 0) = Num 0
     \<and> epsVND (storeDrivenScenario (Num 31606.954) (Num 1959.65) (Num 0) kpiDefaults
           (kpiDefaults\<lparr>netNewStores := Num 30, sssgDelta := Num 0.03\<rparr>)) = Num 0
     \<and> vps (dcfFCFF (dcfDefaults\<lparr>shares := Num 0\<rparr>)) = Num 0"
  using degenerate_shares_zero [where sh = "Num 0" and planNPAT_bn = "Num 1959.65"
      and totalEquity_bn = "Num 11256.955" and planRevenue_bn = "Num 31606.954"
      and base = kpiDefaults
      and scenario = "kpiDefaults\<lparr>netNewStores := Num 30, sssgDelta := Num 0.03\<rparr>"
      and i = dcfDefaults]
  by simp

section \<open>The engine on the default inputs\<close>

text \<open>
  The default figures of the dashboard: net cash, the first explicit year's revenue
  \<open>31606.954 * 1.08\<close> and its discount factor \<open>1 / 1.09\<close>.
\<close>

lemma netCash_defaults:
  "netCashBn (Num 4122.714) (Num 1020.17) (Num 3341.542) = Num 1801.342"
  by (simp add: netCashBn_def js_sub_def)

lemma first_year_revenue_defaults:
  "row_rev (rows (dcfFCFF dcfDefaults) ! 0) = Num 34135.51032"
proof -
  have "revSeries dcfDefaults ! 0 = Num (31606.954 * 1.08 ^ 1)"
    using Math_pow_nat [of "1.08" 1]
    by (simp add: revSeries_def cagrSeries_eq dcfDefaults_def)
  then show ?thesis
    by (simp add: rows_dcfFCFF dcfRows_def years_def dcfRow_def Let_def nullish_nth_def
        length_revSeries)
qed

lemma first_year_discount_defaults:
  "row_disc (rows (dcfFCFF dcfDefaults) ! 0) = Num (100 / 109)"
  using Math_pow_nat [of "1.09" 1]
  by (simp add: rows_dcfFCFF dcfRows_def years_def row_disc_dcfRow dcfDefaults_def)

section \<open>The store-driven scenario on finite inputs\<close>

lemma js_div_Num: "b \<noteq> 0 \<Longrightarrow> js_div (Num a) (Num b) = Num (a / b)"
  by simp

lemma Math_pow_nonneg:
  assumes "0 \<le> x" "0 < y"
  shows "Math_pow (Num x) (Num y) = Num (x powr y)"
  using assms by (cases "x = 0") (simp_all add: Math_pow_def)

lemma effectiveAvgStores_Num:
  "effectiveAvgStores (Num s) (Num n) (Num r) = Num (max 0 s + n / 2 * min 1 (max 0 r))"
  by (simp add: effectiveAvgStores_def Let_def clamp_Num Math_max_Num
      del: Math_max.simps Math_min.simps)

text \<open>The scenario on finite inputs, in real arithmetic.\<close>

lemma scenario_Num:
  assumes b: "startStores base = Num sb" "netNewStores base = Num nb" "ramp base = Num rb"
    and s: "startStores scenario = Num ss" "netNewStores scenario = Num ns"
      "ramp scenario = Num rs" "sssgDelta scenario = Num d" "opLeverage scenario = Num ol"
    and E: "E = max (1 / 1000000) (max 0 sb + nb / 2 * min 1 (max 0 rb))"
    and S: "S = max 0 (max 0 ss + ns / 2 * min 1 (max 0 rs))"
    and R: "R = (if 0 < pr then max 0 (pr * (S / E) * (1 + d) / pr) else 0)"
  shows "avgStoresEff (storeDrivenScenario (Num pr) (Num pn) sh base scenario) = Num S"
    and "revenue_bn (storeDrivenScenario (Num pr) (Num pn) sh base scenario)
           = Num (pr * (S / E) * (1 + d))"
    and "revRatio (storeDrivenScenario (Num pr) (Num pn) sh base scenario) = Num R"
    and "npat_bn (storeDrivenScenario (Num pr) (Num pn) sh base scenario)
           = Num (pn * R powr min 2 (max 0.5 ol))"
proof -
  have Epos: "E \<noteq> 0" unfolding E by simp
  have be: "Math_max (Num (1 / 1000000))
              (effectiveAvgStores (startStores base) (netNewStores base) (ramp base)) = Num E"
    unfolding b effectiveAvgStores_Num Math_max_Num E by (rule refl)
  have se: "Math_max (Num 0)
              (effectiveAvgStores (startStores scenario) (netNewStores scenario) (ramp scenario))
            = Num S"
    unfolding s effectiveAvgStores_Num Math_max_Num S by (rule refl)
  have rev: "js_mul (js_mul (Num pr) (js_div (Num S) (Num E))) (js_add (Num 1) (Num d))
             = Num (pr * (S / E) * (1 + d))"
    using Epos by simp
  have rr: "(if js_gt (Num pr) (Num 0)
             then Math_max (Num 0) (js_div (Num (pr * (S / E) * (1 + d))) (Num pr)) else Num 0)
            = Num R"
    unfolding R by (simp add: Math_max_Num del: Math_max.simps)
  have R0: "0 \<le> R" unfolding R by simp
  have ol: "clamp (Num ol) (Num 0.5) (Num 2.0) = Num (min 2 (max 0.5 ol))"
    using clamp_Num [of ol "0.5" "2.0"] by simp
  have pw: "Math_pow (Num R) (Num (min 2 (max 0.5 ol))) = Num (R powr min 2 (max 0.5 ol))"
    by (rule Math_pow_nonneg [OF R0]) simp
  show "avgStoresEff (storeDrivenScenario (Num pr) (Num pn) sh base scenario) = Num S"
    unfolding storeDrivenScenario_def Let_def be se by simp
  show "revenue_bn (storeDrivenScenario (Num pr) (Num pn) sh base scenario)
           = Num (pr * (S / E) * (1 + d))"
    unfolding storeDrivenScenario_def Let_def be se
    unfolding s rev by simp
  show "revRatio (storeDrivenScenario (Num pr) (Num pn) sh base scenario) = Num R"
    unfolding storeDrivenScenario_def Let_def be se
    unfolding s rev
    unfolding rr by simp
  show "npat_bn (storeDrivenScenario (Num pr) (Num pn) sh base scenario)
           = Num (pn * R powr min 2 (max 0.5 ol))"
    unfolding storeDrivenScenario_def Let_def be se
    unfolding s rev
    unfolding rr ol
    unfolding pw by simp
qed

lemma finite_kpiE:
  assumes "finite_kpi k"
  obtains s n r d ol where "startStores k = Num s" "netNewStores k = Num n" "ramp k = Num r"
    "sssgDelta k = Num d" "opLeverage k = Num ol"
  using assms unfolding finite_kpi_def finite_num_iff by blast

lemma js_ge_Num: "js_ge (Num a) (Num b) \<longleftrightarrow> b \<le> a"
  by (auto simp add: js_ge_def)

lemma js_le_Num: "js_le (Num a) (Num b) \<longleftrightarrow> a \<le> b"
  by auto











text \<open>The identity scenario needs no arithmetic beyond \<open>e / e = 1\<close> and \<open>x * 1 = x\<close>.\<close>

lemma clamp_not_NaN:
  assumes "x \<noteq> NaN"
  shows "\<exists>r. clamp x (Num lo) (Num hi) = Num r"
  using assms by (cases x) (auto simp add: clamp_def)

lemma Math_pow_one: "Math_pow (Num 1) (Num y) = Num 1"
  by (simp add: Math_pow_def)

text \<open>
  Claim C2, as the code has it. For a finite \<open>planRevenue_bn > 0\<close> and a finite
  \<open>planNPAT_bn\<close>, a scenario with the base plan's \<open>startStores\<close>, \<open>netNewStores\<close> and
  \<open>ramp\<close>, with \<open>sssgDelta = 0\<close> and an \<open>opLeverage\<close> that is not \<open>NaN\<close>, and a plan
  whose effective average store count is a finite number of at least the floor \<open>1e-6\<close>,
  \<open>storeDrivenScenario\<close> returns exactly the plan revenue and the plan profit.
\<close>

theorem identity_scenario:
  assumes plan: "finite_num planRevenue_bn" "js_gt planRevenue_bn (Num 0)"
      "finite_num planNPAT_bn"
    and same: "startStores scenario = startStores base"
      "netNewStores scenario = netNewStores base" "ramp scenario = ramp base"
    and delta: "sssgDelta scenario = Num 0"
    and lev: "opLeverage scenario \<noteq> NaN"
    and eff: "finite_num (effectiveAvgStores (startStores base) (netNewStores base) (ramp base))"
      "js_ge (effectiveAvgStores (startStores base) (netNewStores base) (ramp base))
         (Num (1 / 1000000))"
  shows "revenue_bn (storeDrivenScenario planRevenue_bn planNPAT_bn sh base scenario)
           = planRevenue_bn
       \<and> npat_bn (storeDrivenScenario planRevenue_bn planNPAT_bn sh base scenario)
           = planNPAT_bn"
proof -
  obtain pr pn where p: "planRevenue_bn = Num pr" "planNPAT_bn = Num pn"
    using plan(1,3) by (auto simp add: finite_num_iff)
  have pr: "0 < pr" using plan(2) by (simp add: p)
  obtain e where e: "effectiveAvgStores (startStores base) (netNewStores base) (ramp base) = Num e"
    using eff(1) by (auto simp add: finite_num_iff)
  have e1: "1 / 1000000 \<le> e" using eff(2) by (simp add: e js_ge_Num)
  then have e0: "0 < e" by simp
  have be: "Math_max (Num (1 / 1000000))
              (effectiveAvgStores (startStores base) (netNewStores base) (ramp base)) = Num e"
    unfolding e Math_max_Num using e1 by simp
  have se: "Math_max (Num 0)
              (effectiveAvgStores (startStores scenario) (netNewStores scenario) (ramp scenario))
            = Num e"
    unfolding same e Math_max_Num using e0 by simp
  have rev: "js_mul (js_mul (Num pr) (js_div (Num e) (Num e))) (js_add (Num 1) (Num 0)) = Num pr"
    using e0 by simp
  have rr: "(if js_gt (Num pr) (Num 0) then Math_max (Num 0) (js_div (Num pr) (Num pr))
             else Num 0) = Num 1"
    using pr by simp
  obtain ol where ol: "clamp (opLeverage scenario) (Num 0.5) (Num 2.0) = Num ol"
    using clamp_not_NaN [OF lev] by blast
  have "revenue_bn (storeDrivenScenario (Num pr) (Num pn) sh base scenario) = Num pr"
    unfolding storeDrivenScenario_def Let_def be se
    unfolding delta rev by simp
  moreover have "npat_bn (storeDrivenScenario (Num pr) (Num pn) sh base scenario) = Num pn"
    unfolding storeDrivenScenario_def Let_def be se
    unfolding delta rev
    unfolding rr ol Math_pow_one by simp
  ultimately show ?thesis by (simp add: p)
qed

text \<open>The base plan of the dashboard as its own scenario.\<close>

theorem identity_scenario_witness:
  "finite_num (Num 31606.954) \<and> js_gt (Num 31606.954) (Num 0) \<and> finite_num (Num 1959.65)
     \<and> sssgDelta kpiDefaults = Num 0 \<and> opLeverage kpiDefaults \<noteq> NaN
     \<and> finite_num (effectiveAvgStores (startStores kpiDefaults) (netNewStores kpiDefaults)
                (ramp kpiDefaults))
     \<and> js_ge (effectiveAvgStores (startStores kpiDefaults) (netNewStores kpiDefaults)
                (ramp kpiDefaults)) (Num (1 / 1000000))
     \<and> revenue_bn (storeDrivenScenario (Num 31606.954) (Num 1959.65) (Num 341149107)
           kpiDefaults kpiDefaults) = Num 31606.954
     \<and> npat_bn (storeDrivenScenario (Num 31606.954) (Num 1959.65) (Num 341149107)
           kpiDefaults kpiDefaults) = Num 1959.65"
proof -
  have h: "finite_num (Num 31606.954)" "js_gt (Num 31606.954) (Num 0)" "finite_num (Num 1959.65)"
    "startStores kpiDefaults = startStores kpiDefaults"
    "netNewStores kpiDefaults = netNewStores kpiDefaults" "ramp kpiDefaults = ramp kpiDefaults"
    "sssgDelta kpiDefaults = Num 0" "opLeverage kpiDefaults \<noteq> NaN"
    by (simp_all add: kpiDefaults_def)
  have e: "finite_num (effectiveAvgStores (startStores kpiDefaults) (netNewStores kpiDefaults)
                (ramp kpiDefaults))"
    "js_ge (effectiveAvgStores (startStores kpiDefaults) (netNewStores kpiDefaults)
                (ramp kpiDefaults)) (Num (1 / 1000000))"
    by (simp_all add: kpiDefaults_def effectiveAvgStores_Num js_ge_Num)
  show ?thesis
    using identity_scenario [OF h e, of "Num 341149107"] h e by blast
qed

text \<open>
  Claim C2 as stated fails for a plan with no stores: the base count is floored at \<open>1e-6\<close>,
  the scenario count at 0, so the identity scenario returns revenue 0 and profit 0 for the
  plan revenue 100 and the plan profit 10.
\<close>

theorem identity_scenario_counterexample:
  "revenue_bn (storeDrivenScenario (Num 100) (Num 10) (Num 1)
       (kpiDefaults\<lparr>startStores := Num 0, netNewStores := Num 0\<rparr>)
       (kpiDefaults\<lparr>startStores := Num 0, netNewStores := Num 0\<rparr>)) = Num 0
   \<and> npat_bn (storeDrivenScenario (Num 100) (Num 10) (Num 1)
       (kpiDefaults\<lparr>startStores := Num 0, netNewStores := Num 0\<rparr>)
       (kpiDefaults\<lparr>startStores := Num 0, netNewStores := Num 0\<rparr>)) = Num 0
   \<and> Num 0 \<noteq> Num 100 \<and> Num 0 \<noteq> Num 10"
proof -
  let ?k = "kpiDefaults\<lparr>startStores := Num 0, netNewStores := Num 0\<rparr>"
  have k: "startStores ?k = Num 0" "netNewStores ?k = Num 0" "ramp ?k = Num 0.7"
    "sssgDelta ?k = Num 0" "opLeverage ?k = Num 1"
    by (simp_all add: kpiDefaults_def)
  have "revenue_bn (storeDrivenScenario (Num 100) (Num 10) (Num 1) ?k ?k)
          = Num (100 * (0 / (1 / 1000000)) * (1 + 0))"
    by (rule scenario_Num(2) [OF k(1-3) k]) simp_all
  moreover have "npat_bn (storeDrivenScenario (Num 100) (Num 10) (Num 1) ?k ?k)
          = Num (10 * 0 powr min 2 (max 0.5 1))"
    by (rule scenario_Num(4) [OF k(1-3) k, where E = "1 / 1000000" and S = 0]) simp_all
  ultimately show ?thesis by simp
qed

text \<open>With a plan revenue of 0 the revenue ratio is 0, and so is the profit.\<close>

lemma identity_scenario_needs_revenue:
  "npat_bn (storeDrivenScenario (Num 0) (Num 10) (Num 1) kpiDefaults kpiDefaults) = Num 0"
proof -
  have k: "startStores kpiDefaults = Num 429" "netNewStores kpiDefaults = Num 20"
    "ramp kpiDefaults = Num 0.7" "sssgDelta kpiDefaults = Num 0" "opLeverage kpiDefaults = Num 1"
    by (simp_all add: kpiDefaults_def)
  have "npat_bn (storeDrivenScenario (Num 0) (Num 10) (Num 1) kpiDefaults kpiDefaults)
          = Num (10 * 0 powr min 2 (max 0.5 1))"
    by (rule scenario_Num(4) [OF k(1-3) k, where E = "436" and S = 436]) simp_all
  then show ?thesis by simp
qed


text \<open>
  Claim C3, as the code has it. For finite inputs with \<open>planRevenue_bn >= 0\<close>,
  \<open>planNPAT_bn >= 0\<close>, \<open>sssgDelta >= -1\<close> and \<open>opLeverage >= 0\<close>, and a revenue and a
  profit under the larger \<open>netNewStores\<close> that are finite numbers, raising \<open>netNewStores\<close>
  of the scenario, all else fixed, decreases none of \<open>avgStoresEff\<close>, \<open>revenue_bn\<close> and
  \<open>npat_bn\<close>.
\<close>

theorem more_stores_monotone:
  assumes fin: "finite_num planRevenue_bn" "finite_num planNPAT_bn" "finite_kpi base"
      "finite_kpi scenario" "finite_num nn2"
    and more_stores: "js_le (netNewStores scenario) nn2"
    and lev: "js_ge (opLeverage scenario) (Num 0)"
    and nonneg: "js_ge planRevenue_bn (Num 0)" "js_ge planNPAT_bn (Num 0)"
      "js_ge (sssgDelta scenario) (Num (- 1))"
    and finite_out:
      "finite_num (revenue_bn (storeDrivenScenario planRevenue_bn planNPAT_bn sh base
          (scenario\<lparr>netNewStores := nn2\<rparr>)))"
      "finite_num (npat_bn (storeDrivenScenario planRevenue_bn planNPAT_bn sh base
          (scenario\<lparr>netNewStores := nn2\<rparr>)))"
  shows "js_le (avgStoresEff (storeDrivenScenario planRevenue_bn planNPAT_bn sh base scenario))
           (avgStoresEff (storeDrivenScenario planRevenue_bn planNPAT_bn sh base
              (scenario\<lparr>netNewStores := nn2\<rparr>)))
       \<and> js_le (revenue_bn (storeDrivenScenario planRevenue_bn planNPAT_bn sh base scenario))
           (revenue_bn (storeDrivenScenario planRevenue_bn planNPAT_bn sh base
              (scenario\<lparr>netNewStores := nn2\<rparr>)))
       \<and> js_le (npat_bn (storeDrivenScenario planRevenue_bn planNPAT_bn sh base scenario))
           (npat_bn (storeDrivenScenario planRevenue_bn planNPAT_bn sh base
              (scenario\<lparr>netNewStores := nn2\<rparr>)))"
proof -
  obtain pr pn m where p: "planRevenue_bn = Num pr" "planNPAT_bn = Num pn" "nn2 = Num m"
    using fin(1,2,5) by (auto simp add: finite_num_iff)
  obtain sb nb rb db ob where b: "startStores base = Num sb" "netNewStores base = Num nb"
    "ramp base = Num rb" "sssgDelta base = Num db" "opLeverage base = Num ob"
    using fin(3) by (rule finite_kpiE)
  obtain ss ns rs d ol where s: "startStores scenario = Num ss" "netNewStores scenario = Num ns"
    "ramp scenario = Num rs" "sssgDelta scenario = Num d" "opLeverage scenario = Num ol"
    using fin(4) by (rule finite_kpiE)
  let ?s' = "scenario\<lparr>netNewStores := nn2\<rparr>"
  have s': "startStores ?s' = Num ss" "netNewStores ?s' = Num m"
    "ramp ?s' = Num rs" "sssgDelta ?s' = Num d" "opLeverage ?s' = Num ol"
    by (simp_all add: s p)
  have ineq: "ns \<le> m" "0 \<le> pr" "0 \<le> pn" "- 1 \<le> d"
    using more_stores nonneg by (simp_all add: p s js_ge_Num)
  define c where "c = min 1 (max 0 rs)"
  define a where "a = min 2 (max 0.5 ol)"
  define E where "E = max (1 / 1000000) (max 0 sb + nb / 2 * min 1 (max 0 rb))"
  define S1 where "S1 = max 0 (max 0 ss + ns / 2 * c)"
  define S2 where "S2 = max 0 (max 0 ss + m / 2 * c)"
  define R1 where "R1 = (if 0 < pr then max 0 (pr * (S1 / E) * (1 + d) / pr) else 0)"
  define R2 where "R2 = (if 0 < pr then max 0 (pr * (S2 / E) * (1 + d) / pr) else 0)"
  note f1 = scenario_Num [OF b(1-3) s E_def S1_def [unfolded c_def] R1_def, of pn sh]
  note f2 = scenario_Num [OF b(1-3) s' E_def S2_def [unfolded c_def] R2_def, of pn sh]
  have c0: "0 \<le> c" and a0: "0 \<le> a" and E0: "0 < E"
    by (simp_all add: c_def a_def E_def)
  have "ns / 2 * c \<le> m / 2 * c"
    using ineq(1) c0 by (intro mult_right_mono) simp_all
  then have S: "S1 \<le> S2" by (simp add: S1_def S2_def)
  have SE: "S1 / E \<le> S2 / E"
    using S E0 by (simp add: divide_right_mono)
  have rev: "pr * (S1 / E) * (1 + d) \<le> pr * (S2 / E) * (1 + d)"
    using SE ineq by (intro mult_right_mono mult_left_mono) simp_all
  have R0: "0 \<le> R1" by (simp add: R1_def)
  have R: "R1 \<le> R2"
  proof (cases "0 < pr")
    case True
    then have "pr * (S1 / E) * (1 + d) / pr \<le> pr * (S2 / E) * (1 + d) / pr"
      using rev by (intro divide_right_mono) simp_all
    then have "max 0 (pr * (S1 / E) * (1 + d) / pr) \<le> max 0 (pr * (S2 / E) * (1 + d) / pr)"
      by (rule max.mono [OF order_refl])
    then show ?thesis by (simp only: R1_def R2_def True if_True)
  next
    case False
    then show ?thesis by (simp add: R1_def R2_def)
  qed
  have "R1 powr a \<le> R2 powr a"
    by (rule powr_mono2 [OF a0 R0 R])
  then have npat: "pn * R1 powr a \<le> pn * R2 powr a"
    using ineq(3) by (rule mult_left_mono)
  show ?thesis
    unfolding p(1,2) f1 f2 js_le_Num using S rev npat by (simp add: a_def)
qed


text \<open>The base plan of the dashboard with 30 net new stores instead of 20.\<close>

theorem more_stores_monotone_witness:
  "finite_num (Num 31606.954) \<and> finite_num (Num 1959.65) \<and> finite_kpi kpiDefaults
     \<and> finite_num (Num 30) \<and> js_le (netNewStores kpiDefaults) (Num 30)
     \<and> js_ge (opLeverage kpiDefaults) (Num 0)
     \<and> js_ge (Num 31606.954) (Num 0) \<and> js_ge (Num 1959.65) (Num 0)
     \<and> js_ge (sssgDelta kpiDefaults) (Num (- 1))
     \<and> finite_num (revenue_bn (storeDrivenScenario (Num 31606.954) (Num 1959.65)
                 (Num 341149107) kpiDefaults (kpiDefaults\<lparr>netNewStores := Num 30\<rparr>)))
     \<and> finite_num (npat_bn (storeDrivenScenario (Num 31606.954) (Num 1959.65)
                 (Num 341149107) kpiDefaults (kpiDefaults\<lparr>netNewStores := Num 30\<rparr>)))
     \<and> js_le (avgStoresEff (storeDrivenScenario (Num 31606.954) (Num 1959.65)
                 (Num 341149107) kpiDefaults kpiDefaults))
           (avgStoresEff (storeDrivenScenario (Num 31606.954) (Num 1959.65)
                 (Num 341149107) kpiDefaults (kpiDefaults\<lparr>netNewStores := Num 30\<rparr>)))
     \<and> js_le (revenue_bn (storeDrivenScenario (Num 31606.954) (Num 1959.65)
                 (Num 341149107) kpiDefaults kpiDefaults))
           (revenue_bn (storeDrivenScenario (Num 31606.954) (Num 1959.65)
                 (Num 341149107) kpiDefaults (kpiDefaults\<lparr>netNewStores := Num 30\<rparr>)))
     \<and> js_le (npat_bn (storeDrivenScenario (Num 31606.954) (Num 1959.65)
                 (Num 341149107) kpiDefaults kpiDefaults))
           (npat_bn (storeDrivenScenario (Num 31606.954) (Num 1959.65)
                 (Num 341149107) kpiDefaults (kpiDefaults\<lparr>netNewStores := Num 30\<rparr>)))"
proof -
  let ?s = "kpiDefaults\<lparr>netNewStores := Num 30\<rparr>"
  have h: "finite_num (Num 31606.954)" "finite_num (Num 1959.65)" "finite_kpi kpiDefaults"
    "finite_kpi kpiDefaults" "finite_num (Num 30)" "js_le (netNewStores kpiDefaults) (Num 30)"
    "js_ge (opLeverage kpiDefaults) (Num 0)"
    "js_ge (Num 31606.954) (Num 0)" "js_ge (Num 1959.65) (Num 0)"
    "js_ge (sssgDelta kpiDefaults) (Num (- 1))"
    by (simp_all add: finite_kpi_def kpiDefaults_def js_ge_Num)
  have b: "startStores kpiDefaults = Num 429" "netNewStores kpiDefaults = Num 20"
    "ramp kpiDefaults = Num 0.7"
    by (simp_all add: kpiDefaults_def)
  have s: "startStores ?s = Num 429" "netNewStores ?s = Num 30" "ramp ?s = Num 0.7"
    "sssgDelta ?s = Num 0" "opLeverage ?s = Num 1"
    by (simp_all add: kpiDefaults_def)
  have f: "finite_num (revenue_bn (storeDrivenScenario (Num 31606.954) (Num 1959.65)
                 (Num 341149107) kpiDefaults ?s))"
    "finite_num (npat_bn (storeDrivenScenario (Num 31606.954) (Num 1959.65)
                 (Num 341149107) kpiDefaults ?s))"
    using scenario_Num(2,4) [OF b s refl refl refl, of "31606.954" "1959.65" "Num 341149107"]
    by simp_all
  show ?thesis
    using more_stores_monotone [OF h f] h f by blast
qed

text \<open>
  Claim C3 as stated fails: with \<open>sssgDelta = -2\<close> the factor \<open>1 + sssgDelta\<close> is
  negative, and twenty more stores lower the revenue from \<open>-100\<close> to \<open>-200\<close>. Ten stores, no
  ramp discount, plan revenue 100.
\<close>

theorem more_stores_monotone_counterexample:
  "js_le (netNewStores (kpiDefaults\<lparr>startStores := Num 10, netNewStores := Num 0,
              ramp := Num 1, sssgDelta := Num (- 2)\<rparr>)) (Num 20)
   \<and> js_ge (opLeverage (kpiDefaults\<lparr>startStores := Num 10, netNewStores := Num 0,
              ramp := Num 1, sssgDelta := Num (- 2)\<rparr>)) (Num 0)
   \<and> revenue_bn (storeDrivenScenario (Num 100) (Num 10) (Num 1)
         (kpiDefaults\<lparr>startStores := Num 10, netNewStores := Num 0, ramp := Num 1\<rparr>)
         (kpiDefaults\<lparr>startStores := Num 10, netNewStores := Num 0, ramp := Num 1,
            sssgDelta := Num (- 2)\<rparr>)) = Num (- 100)
   \<and> revenue_bn (storeDrivenScenario (Num 100) (Num 10) (Num 1)
         (kpiDefaults\<lparr>startStores := Num 10, netNewStores := Num 0, ramp := Num 1\<rparr>)
         (kpiDefaults\<lparr>startStores := Num 10, netNewStores := Num 0, ramp := Num 1,
            sssgDelta := Num (- 2)\<rparr>\<lparr>netNewStores := Num 20\<rparr>)) = Num (- 200)
   \<and> \<not> js_le (Num (- 100)) (Num (- 200))"
proof -
  let ?b = "kpiDefaults\<lparr>startStores := Num 10, netNewStores := Num 0, ramp := Num 1\<rparr>"
  let ?s = "kpiDefaults\<lparr>startStores := Num 10, netNewStores := Num 0, ramp := Num 1,
            sssgDelta := Num (- 2)\<rparr>"
  have b: "startStores ?b = Num 10" "netNewStores ?b = Num 0" "ramp ?b = Num 1"
    by (simp_all add: kpiDefaults_def)
  have s1: "startStores ?s = Num 10" "netNewStores ?s = Num 0" "ramp ?s = Num 1"
    "sssgDelta ?s = Num (- 2)" "opLeverage ?s = Num 1"
    by (simp_all add: kpiDefaults_def)
  have s2: "startStores (?s\<lparr>netNewStores := Num 20\<rparr>) = Num 10"
    "netNewStores (?s\<lparr>netNewStores := Num 20\<rparr>) = Num 20"
    "ramp (?s\<lparr>netNewStores := Num 20\<rparr>) = Num 1"
    "sssgDelta (?s\<lparr>netNewStores := Num 20\<rparr>) = Num (- 2)"
    "opLeverage (?s\<lparr>netNewStores := Num 20\<rparr>) = Num 1"
    by (simp_all add: kpiDefaults_def)
  have "revenue_bn (storeDrivenScenario (Num 100) (Num 10) (Num 1) ?b ?s)
          = Num (100 * (10 / 10) * (1 + - 2))"
    by (rule scenario_Num(2) [OF b s1]) simp_all
  moreover have "revenue_bn (storeDrivenScenario (Num 100) (Num 10) (Num 1) ?b
                   (?s\<lparr>netNewStores := Num 20\<rparr>))
          = Num (100 * (20 / 10) * (1 + - 2))"
    by (rule scenario_Num(2) [OF b s2]) simp_all
  ultimately show ?thesis by (simp add: kpiDefaults_def js_ge_Num)
qed

text \<open>With a planned loss, twenty more stores deepen it: the profit goes from \<open>-10\<close> to \<open>-20\<close>.\<close>

lemma more_stores_needs_profit:
  "npat_bn (storeDrivenScenario (Num 100) (Num (- 10)) (Num 1)
       (kpiDefaults\<lparr>startStores := Num 10, netNewStores := Num 0, ramp := Num 1\<rparr>)
       (kpiDefaults\<lparr>startStores := Num 10, netNewStores := Num 0, ramp := Num 1\<rparr>))
     = Num (- 10)
   \<and> npat_bn (storeDrivenScenario (Num 100) (Num (- 10)) (Num 1)
       (kpiDefaults\<lparr>startStores := Num 10, netNewStores := Num 0, ramp := Num 1\<rparr>)
       (kpiDefaults\<lparr>startStores := Num 10, netNewStores := Num 20, ramp := Num 1\<rparr>))
     = Num (- 20)"
proof -
  let ?b = "kpiDefaults\<lparr>startStores := Num 10, netNewStores := Num 0, ramp := Num 1\<rparr>"
  let ?s = "kpiDefaults\<lparr>startStores := Num 10, netNewStores := Num 20, ramp := Num 1\<rparr>"
  have b: "startStores ?b = Num 10" "netNewStores ?b = Num 0" "ramp ?b = Num 1"
    "sssgDelta ?b = Num 0" "opLeverage ?b = Num 1"
    by (simp_all add: kpiDefaults_def)
  have s: "startStores ?s = Num 10" "netNewStores ?s = Num 20" "ramp ?s = Num 1"
    "sssgDelta ?s = Num 0" "opLeverage ?s = Num 1"
    by (simp_all add: kpiDefaults_def)
  have "npat_bn (storeDrivenScenario (Num 100) (Num (- 10)) (Num 1) ?b ?b)
          = Num (- 10 * 1 powr min 2 (max 0.5 1))"
    by (rule scenario_Num(4) [OF b(1-3) b, where E = 10 and S = 10]) simp_all
  moreover have "npat_bn (storeDrivenScenario (Num 100) (Num (- 10)) (Num 1) ?b ?s)
          = Num (- 10 * (20 / 10) powr min 2 (max 0.5 1))"
    by (rule scenario_Num(4) [OF b(1-3) s, where E = 10 and S = 20]) simp_all
  ultimately show ?thesis by simp
qed


section \<open>The store-driven revenue path\<close>

lemma storeYear_rows: "fst (storeYear p st idx) = fst st @ [storeRow p (snd st) idx]"
  by (simp add: storeYear_def Let_def)

lemma length_foldl_storeYear:
  "length (fst (foldl (storeYear p) st ks)) = length (fst st) + length ks"
  by (induction ks rule: rev_induct) (simp_all add: storeYear_rows)

lemma foldl_storeYear_nth:
  "k < length ks \<Longrightarrow>
   \<exists>prev. fst (foldl (storeYear p) st ks) ! (length (fst st) + k) = storeRow p prev (ks ! k)"
proof (induction ks rule: rev_induct)
  case Nil
  then show ?case by simp
next
  case (snoc x xs)
  show ?case
  proof (cases "k < length xs")
    case True
    then obtain prev where
      "fst (foldl (storeYear p) st xs) ! (length (fst st) + k) = storeRow p prev (xs ! k)"
      using snoc.IH by blast
    then show ?thesis
      using True by (auto simp add: storeYear_rows nth_append length_foldl_storeYear)
  next
    case False
    then have k: "k = length xs" using snoc.prems by simp
    show ?thesis
      by (auto simp add: k storeYear_rows nth_append length_foldl_storeYear)
  qed
qed

lemma length_storeRows: "length (storeRows p) = 5"
  unfolding storeRows_def length_foldl_storeYear by (simp add: length_years)

lemma storeRows_nth:
  assumes "k < 5"
  shows "\<exists>prev. storeRows p ! k = storeRow p prev k"
proof -
  have k: "k < length [0 ..< length years]" using assms by (simp add: length_years)
  have n: "[0 ..< length years] ! k = 0 + k"
    by (rule nth_upt) (simp add: length_years assms)
  obtain prev where
    "fst (foldl (storeYear p) ([], p_rev2025_bn p) [0 ..< length years])
       ! (length (fst ([] :: StoreDCFRow list, p_rev2025_bn p)) + k)
     = storeRow p prev ([0 ..< length years] ! k)"
    using foldl_storeYear_nth [OF k] by blast
  then have "storeRows p ! k = storeRow p prev k"
    unfolding storeRows_def n by simp
  then show ?thesis by blast
qed

lemma sd_rows_build: "sd_rows (buildStoreDCFSeries p) = storeRows p"
  by (simp add: buildStoreDCFSeries_def Let_def)

lemma storeRow_fields:
  "sr_storesStart (storeRow p prev idx) =
     js_add (sd_storeStart p) (js_mul (sd_nn p) (Num (real idx)))"
  "sr_storesEnd (storeRow p prev idx) = js_add (sr_storesStart (storeRow p prev idx)) (sd_nn p)"
  "sr_avgStoresEff (storeRow p prev idx) =
     js_add (sr_storesStart (storeRow p prev idx)) (js_mul (js_div (sd_nn p) (Num 2)) (sd_ramp p))"
  "sr_retailRev_bn (storeRow p prev idx) =
     js_mul (js_mul (matureRetailRevPerEffStore p) (sr_avgStoresEff (storeRow p prev idx)))
       (Math_pow (js_add (Num 1) (sd_sssg p)) (Num (real (idx + 1))))"
  by (simp_all add: storeRow_def Let_def js_sub_def)

text \<open>
  Claim C9, as the code has it. \<open>buildStoreDCFSeries\<close> returns five rows, and for each year
  index \<open>t = 1..5\<close> the row satisfies
  \<open>storesStart = storeStart' + nn * (t - 1)\<close>, \<open>storesEnd = storesStart + nn\<close>,
  \<open>avgStoresEff = storesStart + (nn / 2) * ramp'\<close> and
  \<open>retailRev_bn = matureRetailRevPerEffStore * avgStoresEff * (1 + sssg) ^ t\<close>, where
  \<open>storeStart' = max(0, floor(storeStart))\<close>, \<open>nn = floor(netNewPerYear)\<close>, \<open>ramp'\<close> is
  the ramp clamped to \<open>[0, 1]\<close> and \<open>sssg\<close> is \<open>sssgAbs\<close> clamped to \<open>[-0.05, 0.20]\<close>.
\<close>

theorem store_path_rows:
  assumes "1 \<le> t" "t \<le> 5"
  shows "length (sd_rows (buildStoreDCFSeries p)) = 5
    \<and> sr_storesStart (sd_rows (buildStoreDCFSeries p) ! (t - 1))
        = js_add (Math_max (Num 0) (Math_floor (p_storeStart p)))
            (js_mul (Math_floor (p_netNewPerYear p)) (Num (real t - 1)))
    \<and> sr_storesEnd (sd_rows (buildStoreDCFSeries p) ! (t - 1))
        = js_add (sr_storesStart (sd_rows (buildStoreDCFSeries p) ! (t - 1)))
            (Math_floor (p_netNewPerYear p))
    \<and> sr_avgStoresEff (sd_rows (buildStoreDCFSeries p) ! (t - 1))
        = js_add (sr_storesStart (sd_rows (buildStoreDCFSeries p) ! (t - 1)))
            (js_mul (js_div (Math_floor (p_netNewPerYear p)) (Num 2))
               (clamp (p_ramp p) (Num 0) (Num 1)))
    \<and> sr_retailRev_bn (sd_rows (buildStoreDCFSeries p) ! (t - 1))
        = js_mul
            (js_mul (matureRetailRevPerEffStore p)
               (sr_avgStoresEff (sd_rows (buildStoreDCFSeries p) ! (t - 1))))
            (Math_pow (js_add (Num 1) (clamp (p_sssgAbs p) (Num (- 0.05)) (Num 0.20)))
               (Num (real t)))"
proof -
  have k: "t - 1 < 5" and t: "real (t - 1) = real t - 1" "t - 1 + 1 = t"
    using assms by simp_all
  obtain prev where row: "storeRows p ! (t - 1) = storeRow p prev (t - 1)"
    using storeRows_nth [OF k] by blast
  show ?thesis
    unfolding sd_rows_build row storeRow_fields t length_storeRows
    unfolding sd_storeStart_def sd_nn_def sd_ramp_def sd_sssg_def
    by simp
qed

text \<open>
  The third year of the default path: 429 stores and 20 net new stores a year give 469 stores
  at the start of the year, 489 at its end and 476 effective stores at a ramp of 0.7.
\<close>

theorem store_path_rows_witness:
  "(1::nat) \<le> 3 \<and> (3::nat) \<le> 5
    \<and> length (sd_rows (buildStoreDCFSeries storeDefaults)) = 5
    \<and> sr_storesStart (sd_rows (buildStoreDCFSeries storeDefaults) ! 2) = Num 469
    \<and> sr_storesEnd (sd_rows (buildStoreDCFSeries storeDefaults) ! 2) = Num 489
    \<and> sr_avgStoresEff (sd_rows (buildStoreDCFSeries storeDefaults) ! 2) = Num 476
    \<and> sr_retailRev_bn (sd_rows (buildStoreDCFSeries storeDefaults) ! 2)
        = js_mul (js_mul (matureRetailRevPerEffStore storeDefaults) (Num 476))
            (Math_pow (Num 1.04) (Num 3))"
  using store_path_rows [of 3 storeDefaults]
  by (simp add: storeDefaults_def clamp_def)

text \<open>
  Claim C9 as stated fails on the values the caller supplies: with \<open>storeStart = -5\<close> and
  \<open>netNewPerYear = 2.5\<close> the first row starts at 0 stores, not at \<open>-5\<close>, and ends at 2.
\<close>

theorem store_path_rows_counterexample:
  "sr_storesStart
     (sd_rows (buildStoreDCFSeries
        (storeDefaults\<lparr>p_storeStart := Num (- 5), p_netNewPerYear := Num 2.5\<rparr>)) ! (1 - 1))
     = Num 0
   \<and> js_add (p_storeStart (storeDefaults\<lparr>p_storeStart := Num (- 5), p_netNewPerYear := Num 2.5\<rparr>))
       (js_mul (p_netNewPerYear (storeDefaults\<lparr>p_storeStart := Num (- 5), p_netNewPerYear := Num 2.5\<rparr>))
          (Num (1 - 1)))
     = Num (- 5)
   \<and> sr_storesEnd
     (sd_rows (buildStoreDCFSeries
        (storeDefaults\<lparr>p_storeStart := Num (- 5), p_netNewPerYear := Num 2.5\<rparr>)) ! (1 - 1))
     = Num 2
   \<and> Num 0 \<noteq> Num (- 5)"
proof -
  let ?p = "storeDefaults\<lparr>p_storeStart := Num (- 5), p_netNewPerYear := Num 2.5\<rparr>"
  obtain prev where row: "storeRows ?p ! 0 = storeRow ?p prev 0"
    using storeRows_nth [of 0 ?p] by auto
  have s: "sd_storeStart ?p = Num 0" and n: "sd_nn ?p = Num 2"
    by (simp_all add: sd_storeStart_def sd_nn_def storeDefaults_def)
  have r: "sd_rows (buildStoreDCFSeries ?p) ! (1 - 1) = storeRow ?p prev 0"
    by (simp only: sd_rows_build diff_self_eq_0 row)
  have a: "sr_storesStart (storeRow ?p prev 0) = Num 0"
    unfolding storeRow_fields s n by simp
  have b: "sr_storesEnd (storeRow ?p prev 0) = Num 2"
    unfolding storeRow_fields s n by simp
  have c: "js_add (p_storeStart ?p) (js_mul (p_netNewPerYear ?p) (Num (1 - 1))) = Num (- 5)"
    by (simp add: storeDefaults_def)
  show ?thesis
    unfolding r a b using c by simp
qed

section \<open>Weight normalization and the blended value\<close>





end
